theory Spec2Isabelle
  imports Main "HOL-Library.Word"
begin

section \<open>Data model (servidor/modelos.py)\<close>

text \<open>
  The pydantic models become records. Python strings are sequences of code points; every
  code point used by the program is below 256, so one \<open>char\<close> stands for one code point.
  Field names that occur in several models carry a suffix in all but one of them.
\<close>

record Carta =
  id_carta :: string
  nome :: string
  tipo :: string
  skin :: string
  raridade :: string

record Jogador =
  id_jogador_j :: string
  nome_j :: string
  servidor_local :: string
  ping_udp :: "int option"

record Inventario =
  id_jogador :: string
  cartas :: "Carta list"
  pacotes_disponiveis :: int

record EstoqueGlobal =
  pacotes_restantes :: int

record DetalhesTroca =
  id_jogador_a :: string
  id_carta_a :: string
  id_jogador_b :: string
  id_carta_b :: string

text \<open>
  \<open>Transacao2PC.dados\<close> is a dictionary. The program builds it in two shapes only:
  \<open>{"id_jogador", "quantidade_pacotes"}\<close> for a pack opening and
  \<open>DetalhesTroca.dict()\<close> for a trade. Reading a key of the other shape raises.
\<close>

datatype dados_transacao =
  Dados_pacote string int
  | Dados_troca DetalhesTroca

record Transacao2PC =
  id_transacao :: string
  coordenador_url :: string
  tipo_operacao :: string
  status :: string
  dados :: dados_transacao

record Voto2PC =
  id_transacao_v :: string
  servidor_url_v :: string
  voto :: string
  mensagem :: "string option"

record Resultado2PC =
  id_transacao_r :: string
  servidor_url_r :: string
  decisao :: string

datatype erro = KeyError | ValidationError | TypeError

definition Inventario_novo :: "string \<Rightarrow> Inventario" where
  "Inventario_novo j = \<lparr>id_jogador = j, cartas = [], pacotes_disponiveis = 0\<rparr>"

definition EstoqueGlobal_padrao :: EstoqueGlobal where
  "EstoqueGlobal_padrao = \<lparr>pacotes_restantes = 50\<rparr>"

section \<open>Coordination store (servidor/servico_coordenacao.py)\<close>

text \<open>
  The Redis key space: the key \<open>estoque_global\<close>, the keys \<open>inventario:<id>\<close> and the
  keys \<open>transacao_2pc:<id>\<close>. A value is the JSON document of the model stored there.
\<close>

record redis =
  chave_estoque :: "EstoqueGlobal option"
  chaves_inventario :: "string \<rightharpoonup> Inventario"
  chaves_transacao :: "string \<rightharpoonup> Transacao2PC"

definition get_estoque_global :: "redis \<Rightarrow> EstoqueGlobal" where
  "get_estoque_global r =
     (case chave_estoque r of Some e \<Rightarrow> e | None \<Rightarrow> EstoqueGlobal_padrao)"

definition set_estoque_global :: "EstoqueGlobal \<Rightarrow> redis \<Rightarrow> redis" where
  "set_estoque_global e r = r\<lparr>chave_estoque := Some e\<rparr>"

definition get_inventario :: "redis \<Rightarrow> string \<Rightarrow> Inventario option" where
  "get_inventario r j = chaves_inventario r j"

definition set_inventario :: "Inventario \<Rightarrow> redis \<Rightarrow> redis" where
  "set_inventario i r = r\<lparr>chaves_inventario := (chaves_inventario r)(id_jogador i \<mapsto> i)\<rparr>"

definition get_transacao :: "redis \<Rightarrow> string \<Rightarrow> Transacao2PC option" where
  "get_transacao r t = chaves_transacao r t"

definition set_transacao :: "Transacao2PC \<Rightarrow> redis \<Rightarrow> redis" where
  "set_transacao t r = r\<lparr>chaves_transacao := (chaves_transacao r)(id_transacao t \<mapsto> t)\<rparr>"

definition remover_transacao :: "string \<Rightarrow> redis \<Rightarrow> redis" where
  "remover_transacao t r = r\<lparr>chaves_transacao := (chaves_transacao r)(t := None)\<rparr>"

text \<open>The constructor of \<open>ServicoCoordenacao\<close> writes the default stock when the key is absent.\<close>

definition iniciar_coordenacao :: "redis \<Rightarrow> redis" where
  "iniciar_coordenacao r =
     (if chave_estoque r = None then set_estoque_global EstoqueGlobal_padrao r else r)"

subsection \<open>The WATCH/MULTI/EXEC loops\<close>

text \<open>
  One pass through \<open>while True\<close> meets one of three things: the EXEC goes through
  (\<open>Executa\<close>); another client has written the stock key since the WATCH, EXEC raises
  WatchError and the loop starts again (\<open>Conflito e\<close>, where \<open>e\<close> is what the other client
  wrote); or another exception is raised and the function returns False without an EXEC
  (\<open>Falha\<close>). The list of passes is the fuel of the loop: a call that has used up its list
  has not returned (\<open>None\<close>).
\<close>

datatype tentativa = Executa | Conflito EstoqueGlobal | Falha

fun decrementar_estoque_atomico ::
  "int \<Rightarrow> tentativa list \<Rightarrow> redis \<Rightarrow> (bool \<times> redis) option" where
  "decrementar_estoque_atomico quantidade [] r = None"
| "decrementar_estoque_atomico quantidade (Falha # ts) r = Some (False, r)"
| "decrementar_estoque_atomico quantidade (Executa # ts) r =
     (let estoque_atual = get_estoque_global r in
      if pacotes_restantes estoque_atual < quantidade then Some (False, r)
      else Some (True,
             set_estoque_global
               (estoque_atual\<lparr>pacotes_restantes :=
                  pacotes_restantes estoque_atual - quantidade\<rparr>) r))"
| "decrementar_estoque_atomico quantidade (Conflito outro # ts) r =
     (let estoque_atual = get_estoque_global r in
      if pacotes_restantes estoque_atual < quantidade then Some (False, r)
      else decrementar_estoque_atomico quantidade ts (set_estoque_global outro r))"

fun incrementar_estoque_atomico ::
  "int \<Rightarrow> tentativa list \<Rightarrow> redis \<Rightarrow> (bool \<times> redis) option" where
  "incrementar_estoque_atomico quantidade [] r = None"
| "incrementar_estoque_atomico quantidade (Falha # ts) r = Some (False, r)"
| "incrementar_estoque_atomico quantidade (Conflito outro # ts) r =
     incrementar_estoque_atomico quantidade ts (set_estoque_global outro r)"
| "incrementar_estoque_atomico quantidade (Executa # ts) r =
     (let estoque_atual = get_estoque_global r in
      Some (True,
        set_estoque_global
          (estoque_atual\<lparr>pacotes_restantes :=
             pacotes_restantes estoque_atual + quantidade\<rparr>) r))"


definition eh_conflito :: "tentativa \<Rightarrow> bool" where
  "eh_conflito t = (case t of Conflito _ \<Rightarrow> True | _ \<Rightarrow> False)"

text \<open>
  Within one sequential run of the protocol the nodes of the cluster are the only clients
  of the store and they act one after the other: no write falls between a WATCH and its
  EXEC and Redis raises nothing, so the first pass of a loop executes. \<open>sem_disputa\<close> is
  such a call; it never takes its second branch (lemmas \<open>sem_disputa_decrementar\<close> and
  \<open>sem_disputa_incrementar\<close>).
\<close>

definition sem_disputa ::
  "(tentativa list \<Rightarrow> redis \<Rightarrow> (bool \<times> redis) option) \<Rightarrow> redis \<Rightarrow> bool \<times> redis" where
  "sem_disputa chamada r = (case chamada [Executa] r of Some res \<Rightarrow> res | None \<Rightarrow> (False, r))"

section \<open>Card generation (servidor/servico\_2pc.py)\<close>

text \<open>
  The module \<open>random\<close> is never seeded by the program. Its state is a stream of draws:
  the k-th request for a number below \<open>n\<close> is answered with the k-th draw modulo \<open>n\<close>.
  \<open>choice\<close> is only applied to the non-empty constant lists below.
\<close>

type_synonym gerador = "nat \<Rightarrow> nat"

definition randbelow :: "nat \<Rightarrow> gerador \<Rightarrow> nat \<times> gerador" where
  "randbelow n g = (g 0 mod n, \<lambda>k. g (Suc k))"

definition choice :: "'a list \<Rightarrow> gerador \<Rightarrow> 'a \<times> gerador" where
  "choice xs g = (case randbelow (length xs) g of (i, g') \<Rightarrow> (xs ! i, g'))"

definition randint :: "nat \<Rightarrow> nat \<Rightarrow> gerador \<Rightarrow> nat \<times> gerador" where
  "randint a b g = (case randbelow (b - a + 1) g of (i, g') \<Rightarrow> (a + i, g'))"

fun str_nat :: "nat \<Rightarrow> string" where
  "str_nat n =
     (if n < 10 then [''0123456789'' ! n]
      else str_nat (n div 10) @ [''0123456789'' ! (n mod 10)])"

declare str_nat.simps [simp del]

text \<open>\<open>str.capitalize\<close>, on the ASCII letters (the program applies it to \<open>tipos\<close> only).\<close>

definition upper_char :: "char \<Rightarrow> char" where
  "upper_char c =
     (case map_of (zip ''abcdefghijklmnopqrstuvwxyz'' ''ABCDEFGHIJKLMNOPQRSTUVWXYZ'') c of
        Some u \<Rightarrow> u | None \<Rightarrow> c)"

definition lower_char :: "char \<Rightarrow> char" where
  "lower_char c =
     (case map_of (zip ''ABCDEFGHIJKLMNOPQRSTUVWXYZ'' ''abcdefghijklmnopqrstuvwxyz'') c of
        Some l \<Rightarrow> l | None \<Rightarrow> c)"

definition capitalize :: "string \<Rightarrow> string" where
  "capitalize s = (case s of [] \<Rightarrow> [] | c # cs \<Rightarrow> upper_char c # map lower_char cs)"

definition tipos :: "string list" where
  "tipos = [''pedra'', ''papel'', ''tesoura'']"

definition skins :: "(string \<times> string list) list" where
  "skins =
     [(''pedra'', [''Rocha Vulc'' @ [CHR 0xE2] @ ''nica'', ''M'' @ [CHR 0xE1] @ ''rmore Polido'',
                   ''Seixo de Rio'']),
      (''papel'', [''Papiro Antigo'', ''Jornal Velho'', ''Nota de D'' @ [CHR 0xF3] @ ''lar'']),
      (''tesoura'', [''L'' @ [CHR 0xE2] @ ''mina Afiada'', ''Tesoura de Jardim'',
                     ''Navalha de Barbeiro''])]"

definition raridades :: "string list" where
  "raridades = [''Comum'', ''Comum'', ''Comum'', ''Rara'', ''Rara'', [CHR 0xC9] @ ''pica'',
                ''Lend'' @ [CHR 0xE1] @ ''ria'']"

definition gerar_carta :: "string \<Rightarrow> gerador \<Rightarrow> Carta \<times> gerador" where
  "gerar_carta id_jog g0 =
     (case choice tipos g0 of (tipo_escolhido, g1) \<Rightarrow>
      case choice (case map_of skins tipo_escolhido of Some l \<Rightarrow> l | None \<Rightarrow> []) g1 of
        (skin_escolhida, g2) \<Rightarrow>
      case choice raridades g2 of (raridade_escolhida, g3) \<Rightarrow>
      case randint 1000 9999 g3 of (n, g4) \<Rightarrow>
        (\<lparr>id_carta = ''CARTA-'' @ str_nat n,
          nome = capitalize tipo_escolhido @ '' ('' @ skin_escolhida @ '')'',
          tipo = tipo_escolhido,
          skin = skin_escolhida,
          raridade = raridade_escolhida\<rparr>, g4))"

definition simular_abertura_pacote :: "string \<Rightarrow> gerador \<Rightarrow> Carta list \<times> gerador" where
  "simular_abertura_pacote id_jog g0 =
     (case gerar_carta id_jog g0 of (c1, g1) \<Rightarrow>
      case gerar_carta id_jog g1 of (c2, g2) \<Rightarrow>
      case gerar_carta id_jog g2 of (c3, g3) \<Rightarrow> ([c1, c2, c3], g3))"

section \<open>The cluster\<close>

text \<open>
  A node (an instance of \<open>Servico2PC\<close> in its own process) owns the dictionary
  \<open>transacoes_em_andamento\<close> and the state of its random generator; it is named by its
  URL. All nodes share the coordination store.
\<close>

record no =
  transacoes_em_andamento :: "string \<rightharpoonup> Transacao2PC"
  aleatorio :: gerador

record mundo =
  cs :: redis
  nos :: "string \<Rightarrow> no"

definition em_andamento :: "mundo \<Rightarrow> string \<Rightarrow> string \<Rightarrow> Transacao2PC option" where
  "em_andamento w url t = transacoes_em_andamento (nos w url) t"

definition em_andamento_put :: "string \<Rightarrow> Transacao2PC \<Rightarrow> mundo \<Rightarrow> mundo" where
  "em_andamento_put url t w =
     w\<lparr>nos := (nos w)(url := (nos w url)\<lparr>transacoes_em_andamento :=
          (transacoes_em_andamento (nos w url))(id_transacao t \<mapsto> t)\<rparr>)\<rparr>"

definition em_andamento_pop :: "string \<Rightarrow> string \<Rightarrow> mundo \<Rightarrow> mundo" where
  "em_andamento_pop url t w =
     w\<lparr>nos := (nos w)(url := (nos w url)\<lparr>transacoes_em_andamento :=
          (transacoes_em_andamento (nos w url))(t := None)\<rparr>)\<rparr>"

text \<open>
  \<open>self.transacoes_em_andamento[id] = transacao\<close> followed by \<open>set_transacao(transacao)\<close>,
  as the coordinators and the prepare handlers do.
\<close>

definition registrar_transacao :: "string \<Rightarrow> Transacao2PC \<Rightarrow> mundo \<Rightarrow> mundo" where
  "registrar_transacao url t w =
     (let w1 = em_andamento_put url t w in w1\<lparr>cs := set_transacao t (cs w1)\<rparr>)"

text \<open>
  The transaction a node works on when a decision arrives: the entry of its own table,
  or else the record in the store (\<open>pop(id, None)\<close> followed by \<open>get_transacao\<close>; the
  lookup of \<open>_finalizar_transacao_generica\<close> is the same with \<open>get\<close> for \<open>pop\<close>).
\<close>

definition procurar_transacao :: "mundo \<Rightarrow> string \<Rightarrow> string \<Rightarrow> Transacao2PC option" where
  "procurar_transacao w url t =
     (case em_andamento w url t of Some tx \<Rightarrow> Some tx | None \<Rightarrow> get_transacao (cs w) t)"

text \<open>\<open>get_inventario\<close> followed by \<open>if not inventario: inventario = Inventario(id_jogador=...)\<close>.\<close>

definition inventario_ou_novo :: "redis \<Rightarrow> string \<Rightarrow> Inventario" where
  "inventario_ou_novo r j = (case get_inventario r j of Some i \<Rightarrow> i | None \<Rightarrow> Inventario_novo j)"

text \<open>
  What happens to one HTTP request to a peer: it is delivered and answered; the peer is
  not reached (connection error or timeout before the request arrives); the peer or a
  proxy answers with a status 4xx or 5xx without running the handler; or the peer runs
  the handler and the answer does not come back within the timeout.
\<close>

datatype ligacao = Entregue | Sem_conexao | Erro_http | Resposta_perdida

record rede =
  no_prepare :: "string \<Rightarrow> ligacao"
  na_decisao :: "string \<Rightarrow> ligacao"

section \<open>Two-phase commit (servidor/servico\_2pc.py)\<close>

definition outros_servidores :: "string \<Rightarrow> string list \<Rightarrow> string list" where
  "outros_servidores url_local servidores_jogo = filter (\<lambda>url. url \<noteq> url_local) servidores_jogo"

subsection \<open>Participant, pack opening\<close>

definition participante_prepare_abrir_pacote_logica ::
  "string \<Rightarrow> Transacao2PC \<Rightarrow> mundo \<Rightarrow> (erro + Voto2PC) \<times> mundo" where
  "participante_prepare_abrir_pacote_logica url_local transacao w =
     (let w2 = registrar_transacao url_local transacao w
      in case dados transacao of
           Dados_troca _ \<Rightarrow> (Inl KeyError, w2)
         | Dados_pacote _ quantidade_pacotes \<Rightarrow>
             (case sem_disputa (decrementar_estoque_atomico quantidade_pacotes) (cs w2) of
                (ok, r) \<Rightarrow>
                  if \<not> ok then
                    (Inr \<lparr>id_transacao_v = id_transacao transacao, servidor_url_v = url_local,
                          voto = ''VOTE_ABORT'',
                          mensagem = Some (''Estoque global esgotado ou conflito de concorr''
                                           @ [CHR 0xEA] @ ''ncia.'')\<rparr>,
                     w2\<lparr>cs := r\<rparr>)
                  else
                    (Inr \<lparr>id_transacao_v = id_transacao transacao, servidor_url_v = url_local,
                          voto = ''VOTE_COMMIT'', mensagem = None\<rparr>,
                     w2\<lparr>cs := r\<rparr>)))"

definition participante_commit_abort_abrir_pacote_logica ::
  "string \<Rightarrow> Resultado2PC \<Rightarrow> mundo \<Rightarrow> erro option \<times> mundo" where
  "participante_commit_abort_abrir_pacote_logica url_local resultado w =
     (let id_tx = id_transacao_r resultado;
          w1 = em_andamento_pop url_local id_tx w
      in case procurar_transacao w url_local id_tx of
           None \<Rightarrow> (None, w1)
         | Some transacao \<Rightarrow>
             (case dados transacao of
                Dados_troca _ \<Rightarrow> (Some KeyError, w1)
              | Dados_pacote id_jog quantidade_pacotes \<Rightarrow>
                  (let w2 =
                     (if decisao resultado = ''GLOBAL_COMMIT'' then
                        (let inventario = inventario_ou_novo (cs w1) id_jog
                         in case simular_abertura_pacote id_jog (aleatorio (nos w1 url_local)) of
                              (cartas_obtidas, g) \<Rightarrow>
                                w1\<lparr>cs := set_inventario
                                            (inventario\<lparr>cartas := cartas inventario @ cartas_obtidas\<rparr>)
                                            (cs w1),
                                   nos := (nos w1)(url_local := (nos w1 url_local)\<lparr>aleatorio := g\<rparr>)\<rparr>)
                      else if decisao resultado = ''GLOBAL_ABORT'' then
                        w1\<lparr>cs := snd (sem_disputa (incrementar_estoque_atomico quantidade_pacotes)
                                          (cs w1))\<rparr>
                      else w1)
                   in (None, w2\<lparr>cs := remover_transacao id_tx (cs w2)\<rparr>))))"

subsection \<open>Participant, card trade\<close>

definition possui_carta :: "Inventario \<Rightarrow> string \<Rightarrow> bool" where
  "possui_carta i c = list_ex (\<lambda>x. id_carta x = c) (cartas i)"

definition participante_prepare_troca_cartas_logica ::
  "string \<Rightarrow> Transacao2PC \<Rightarrow> mundo \<Rightarrow> (erro + Voto2PC) \<times> mundo" where
  "participante_prepare_troca_cartas_logica url_local transacao w =
     (let w2 = registrar_transacao url_local transacao w
      in case dados transacao of
           Dados_pacote _ _ \<Rightarrow> (Inl ValidationError, w2)
         | Dados_troca detalhes \<Rightarrow>
             (let inventario_a = get_inventario (cs w2) (id_jogador_a detalhes);
                  inventario_b = get_inventario (cs w2) (id_jogador_b detalhes)
              in if (case inventario_a of
                       Some i \<Rightarrow> \<not> possui_carta i (id_carta_a detalhes) | None \<Rightarrow> False) then
                   (Inr \<lparr>id_transacao_v = id_transacao transacao, servidor_url_v = url_local,
                         voto = ''VOTE_ABORT'',
                         mensagem = Some (''Jogador A n'' @ [CHR 0xE3] @ ''o possui a carta ''
                                          @ id_carta_a detalhes @ ''.'')\<rparr>, w2)
                 else if (case inventario_b of
                       Some i \<Rightarrow> \<not> possui_carta i (id_carta_b detalhes) | None \<Rightarrow> False) then
                   (Inr \<lparr>id_transacao_v = id_transacao transacao, servidor_url_v = url_local,
                         voto = ''VOTE_ABORT'',
                         mensagem = Some (''Jogador B n'' @ [CHR 0xE3] @ ''o possui a carta ''
                                          @ id_carta_b detalhes @ ''.'')\<rparr>, w2)
                 else
                   (Inr \<lparr>id_transacao_v = id_transacao transacao, servidor_url_v = url_local,
                         voto = ''VOTE_COMMIT'', mensagem = None\<rparr>, w2)))"

definition trocar :: "DetalhesTroca \<Rightarrow> redis \<Rightarrow> redis" where
  "trocar detalhes r =
     (case (get_inventario r (id_jogador_a detalhes), get_inventario r (id_jogador_b detalhes)) of
        (Some inventario_a, Some inventario_b) \<Rightarrow>
          (case (find (\<lambda>c. id_carta c = id_carta_a detalhes) (cartas inventario_a),
                 find (\<lambda>c. id_carta c = id_carta_b detalhes) (cartas inventario_b)) of
             (Some carta_a, Some carta_b) \<Rightarrow>
               set_inventario
                 (inventario_b\<lparr>cartas := remove1 carta_b (cartas inventario_b) @ [carta_a]\<rparr>)
                 (set_inventario
                    (inventario_a\<lparr>cartas := remove1 carta_a (cartas inventario_a) @ [carta_b]\<rparr>)
                    r)
           | _ \<Rightarrow> r)
      | _ \<Rightarrow> r)"

definition participante_commit_abort_troca_cartas_logica ::
  "string \<Rightarrow> Resultado2PC \<Rightarrow> mundo \<Rightarrow> erro option \<times> mundo" where
  "participante_commit_abort_troca_cartas_logica url_local resultado w =
     (let id_tx = id_transacao_r resultado;
          w1 = em_andamento_pop url_local id_tx w
      in case procurar_transacao w url_local id_tx of
           None \<Rightarrow> (None, w1)
         | Some transacao \<Rightarrow>
             (case dados transacao of
                Dados_pacote _ _ \<Rightarrow> (Some ValidationError, w1)
              | Dados_troca detalhes \<Rightarrow>
                  (let w2 = (if decisao resultado = ''GLOBAL_COMMIT''
                             then w1\<lparr>cs := trocar detalhes (cs w1)\<rparr>
                             else w1)
                   in (None, w2\<lparr>cs := remover_transacao id_tx (cs w2)\<rparr>))))"

subsection \<open>Peer endpoints (servidor/main.py) and the calls that reach them\<close>

text \<open>
  The application of the node \<open>url\<close> serving a POST of a transaction: the vote of a 200
  answer, or \<open>None\<close> for any other status (500 when the handler raises, 404 for a path
  the application does not have).
\<close>

definition post_prepare ::
  "string \<Rightarrow> string \<Rightarrow> Transacao2PC \<Rightarrow> mundo \<Rightarrow> Voto2PC option \<times> mundo" where
  "post_prepare url endpoint transacao w =
     (if endpoint = ''/transacao/abrir_pacote/prepare'' then
        (case participante_prepare_abrir_pacote_logica url transacao w of
           (Inr v, w') \<Rightarrow> (Some v, w') | (Inl _, w') \<Rightarrow> (None, w'))
      else if endpoint = ''/inventario/troca/prepare'' then
        (case participante_prepare_troca_cartas_logica url transacao w of
           (Inr v, w') \<Rightarrow> (Some v, w') | (Inl _, w') \<Rightarrow> (None, w'))
      else (None, w))"

definition post_commit_abort :: "string \<Rightarrow> string \<Rightarrow> Resultado2PC \<Rightarrow> mundo \<Rightarrow> mundo" where
  "post_commit_abort url endpoint resultado w =
     (if endpoint = ''/transacao/abrir_pacote/commit_abort'' then
        snd (participante_commit_abort_abrir_pacote_logica url resultado w)
      else if endpoint = ''/inventario/troca/commit_abort'' then
        snd (participante_commit_abort_troca_cartas_logica url resultado w)
      else w)"

definition enviar_prepare ::
  "rede \<Rightarrow> string \<Rightarrow> Transacao2PC \<Rightarrow> string \<Rightarrow> mundo \<Rightarrow> Voto2PC option \<times> mundo" where
  "enviar_prepare rd servidor_url transacao endpoint w =
     (case no_prepare rd servidor_url of
        Entregue \<Rightarrow> post_prepare servidor_url endpoint transacao w
      | Sem_conexao \<Rightarrow> (None, w)
      | Erro_http \<Rightarrow> (None, w)
      | Resposta_perdida \<Rightarrow> (None, snd (post_prepare servidor_url endpoint transacao w)))"

definition enviar_decisao :: "rede \<Rightarrow> string \<Rightarrow> Resultado2PC \<Rightarrow> string \<Rightarrow> mundo \<Rightarrow> mundo" where
  "enviar_decisao rd servidor_url resultado endpoint w =
     (case na_decisao rd servidor_url of
        Entregue \<Rightarrow> post_commit_abort servidor_url endpoint resultado w
      | Sem_conexao \<Rightarrow> w
      | Erro_http \<Rightarrow> w
      | Resposta_perdida \<Rightarrow> post_commit_abort servidor_url endpoint resultado w)"

subsection \<open>Coordinator\<close>

definition finalizar_transacao_generica ::
  "rede \<Rightarrow> string \<Rightarrow> string list \<Rightarrow> string \<Rightarrow> string \<Rightarrow> string \<Rightarrow> mundo
     \<Rightarrow> erro option \<times> mundo" where
  "finalizar_transacao_generica rd url_local servidores_jogo id_tx decisao_final
       endpoint_commit_abort w =
     (case procurar_transacao w url_local id_tx of
        None \<Rightarrow> (None, w)
      | Some transacao \<Rightarrow>
          (let resultado_local =
                 \<lparr>id_transacao_r = id_tx, servidor_url_r = url_local, decisao = decisao_final\<rparr>
           in case (if tipo_operacao transacao = ''abrir_pacote'' then
                      participante_commit_abort_abrir_pacote_logica url_local resultado_local w
                    else if tipo_operacao transacao = ''troca_cartas'' then
                      participante_commit_abort_troca_cartas_logica url_local resultado_local w
                    else (None, w)) of
                (Some e, w1) \<Rightarrow> (Some e, w1)
              | (None, w1) \<Rightarrow>
                  (let w2 = foldl (\<lambda>w' servidor_url.
                                      enviar_decisao rd servidor_url resultado_local
                                        endpoint_commit_abort w')
                                  w1 (outros_servidores url_local servidores_jogo);
                       w3 = em_andamento_pop url_local id_tx w2
                   in (None, w3\<lparr>cs := remover_transacao id_tx (cs w3)\<rparr>))))"

text \<open>
  The loop over the remote participants of a pack opening. \<open>None\<close> is the early exit of
  the loop (a vote that is missing or is not VOTE\_COMMIT); otherwise the count of
  commit votes.
\<close>

fun votos_remotos ::
  "rede \<Rightarrow> Transacao2PC \<Rightarrow> string list \<Rightarrow> nat \<Rightarrow> mundo \<Rightarrow> nat option \<times> mundo" where
  "votos_remotos rd transacao [] votos_commit w = (Some votos_commit, w)"
| "votos_remotos rd transacao (servidor_url # resto) votos_commit w =
     (case enviar_prepare rd servidor_url transacao ''/transacao/abrir_pacote/prepare'' w of
        (voto_remoto, w') \<Rightarrow>
          if (case voto_remoto of Some v \<Rightarrow> voto v = ''VOTE_COMMIT'' | None \<Rightarrow> False)
          then votos_remotos rd transacao resto (votos_commit + 1) w'
          else (None, w'))"

text \<open>
  The vote phase of \<open>iniciar_transacao_abertura_pacote\<close>: the decision that the function
  hands to \<open>_finalizar_transacao_generica\<close> (every exit of the source is such a call,
  followed by \<open>return True\<close> after GLOBAL\_COMMIT and \<open>return False\<close> after GLOBAL\_ABORT).
\<close>

definition votar_abertura_pacote ::
  "rede \<Rightarrow> string \<Rightarrow> string list \<Rightarrow> Transacao2PC \<Rightarrow> mundo \<Rightarrow> (erro + string) \<times> mundo" where
  "votar_abertura_pacote rd url_local servidores_jogo transacao w =
     (case participante_prepare_abrir_pacote_logica url_local transacao w of
        (Inl e, w1) \<Rightarrow> (Inl e, w1)
      | (Inr voto_local, w1) \<Rightarrow>
          if voto voto_local \<noteq> ''VOTE_COMMIT'' then (Inr ''GLOBAL_ABORT'', w1)
          else
            (case votos_remotos rd transacao (outros_servidores url_local servidores_jogo) 1 w1 of
               (None, w2) \<Rightarrow> (Inr ''GLOBAL_ABORT'', w2)
             | (Some votos_commit, w2) \<Rightarrow>
                 if votos_commit = length servidores_jogo then (Inr ''GLOBAL_COMMIT'', w2)
                 else (Inr ''GLOBAL_ABORT'', w2)))"

text \<open>\<open>id_tx\<close> is the value of \<open>str(uuid.uuid4())\<close>.\<close>

definition transacao_abertura_pacote :: "string \<Rightarrow> string \<Rightarrow> string \<Rightarrow> Transacao2PC" where
  "transacao_abertura_pacote url_local id_tx id_jog =
     \<lparr>id_transacao = id_tx, coordenador_url = url_local, tipo_operacao = ''abrir_pacote'',
      status = ''PREPARAR'', dados = Dados_pacote id_jog 1\<rparr>"

definition transacao_troca_cartas :: "string \<Rightarrow> string \<Rightarrow> DetalhesTroca \<Rightarrow> Transacao2PC" where
  "transacao_troca_cartas url_local id_tx detalhes_troca =
     \<lparr>id_transacao = id_tx, coordenador_url = url_local, tipo_operacao = ''troca_cartas'',
      status = ''PREPARAR'', dados = Dados_troca detalhes_troca\<rparr>"

definition iniciar_transacao_abertura_pacote ::
  "rede \<Rightarrow> string \<Rightarrow> string list \<Rightarrow> string \<Rightarrow> string \<Rightarrow> mundo \<Rightarrow> (erro + bool) \<times> mundo" where
  "iniciar_transacao_abertura_pacote rd url_local servidores_jogo id_tx id_jog w =
     (let transacao = transacao_abertura_pacote url_local id_tx id_jog;
          w1 = registrar_transacao url_local transacao w
      in case votar_abertura_pacote rd url_local servidores_jogo transacao w1 of
           (Inl e, w2) \<Rightarrow> (Inl e, w2)
         | (Inr decisao_final, w2) \<Rightarrow>
             (case finalizar_transacao_generica rd url_local servidores_jogo id_tx decisao_final
                     ''/transacao/abrir_pacote/commit_abort'' w2 of
                (Some e, w3) \<Rightarrow> (Inl e, w3)
              | (None, w3) \<Rightarrow> (Inr (decisao_final = ''GLOBAL_COMMIT''), w3)))"

text \<open>
  The loop of a trade runs over the whole server list, the local node voting through its
  own handler. \<open>Inr None\<close> is the early exit.
\<close>

fun votos_troca ::
  "rede \<Rightarrow> string \<Rightarrow> Transacao2PC \<Rightarrow> string list \<Rightarrow> nat \<Rightarrow> mundo
     \<Rightarrow> (erro + nat option) \<times> mundo" where
  "votos_troca rd url_local transacao [] votos_commit w = (Inr (Some votos_commit), w)"
| "votos_troca rd url_local transacao (servidor_url # resto) votos_commit w =
     (case (if servidor_url = url_local then
              (case participante_prepare_troca_cartas_logica url_local transacao w of
                 (Inl e, w') \<Rightarrow> (Inl e, w') | (Inr v, w') \<Rightarrow> (Inr (Some v), w'))
            else
              (case enviar_prepare rd servidor_url transacao ''/inventario/troca/prepare'' w of
                 (v, w') \<Rightarrow> (Inr v, w'))) of
        (Inl e, w') \<Rightarrow> (Inl e, w')
      | (Inr voto_recebido, w') \<Rightarrow>
          if (case voto_recebido of Some v \<Rightarrow> voto v = ''VOTE_COMMIT'' | None \<Rightarrow> False)
          then votos_troca rd url_local transacao resto (votos_commit + 1) w'
          else (Inr None, w'))"

definition votar_troca_cartas ::
  "rede \<Rightarrow> string \<Rightarrow> string list \<Rightarrow> Transacao2PC \<Rightarrow> mundo \<Rightarrow> (erro + string) \<times> mundo" where
  "votar_troca_cartas rd url_local servidores_jogo transacao w =
     (case votos_troca rd url_local transacao servidores_jogo 0 w of
        (Inl e, w1) \<Rightarrow> (Inl e, w1)
      | (Inr None, w1) \<Rightarrow> (Inr ''GLOBAL_ABORT'', w1)
      | (Inr (Some votos_commit), w1) \<Rightarrow>
          if votos_commit = length servidores_jogo then (Inr ''GLOBAL_COMMIT'', w1)
          else (Inr ''GLOBAL_ABORT'', w1))"

definition iniciar_transacao_troca_cartas ::
  "rede \<Rightarrow> string \<Rightarrow> string list \<Rightarrow> string \<Rightarrow> DetalhesTroca \<Rightarrow> mundo
     \<Rightarrow> (erro + bool) \<times> mundo" where
  "iniciar_transacao_troca_cartas rd url_local servidores_jogo id_tx detalhes_troca w =
     (let transacao = transacao_troca_cartas url_local id_tx detalhes_troca;
          w1 = registrar_transacao url_local transacao w
      in case votar_troca_cartas rd url_local servidores_jogo transacao w1 of
           (Inl e, w2) \<Rightarrow> (Inl e, w2)
         | (Inr decisao_final, w2) \<Rightarrow>
             (case finalizar_transacao_generica rd url_local servidores_jogo id_tx decisao_final
                     ''/inventario/troca/commit_abort'' w2 of
                (Some e, w3) \<Rightarrow> (Inl e, w3)
              | (None, w3) \<Rightarrow> (Inr (decisao_final = ''GLOBAL_COMMIT''), w3)))"

subsection \<open>The votes of a pack opening, all of them\<close>

text \<open>
  For the comparison with the coordinator: the votes that the participants of a pack
  opening give when each of them is asked in turn, the local node first and then the
  remote ones in the order of the list, none being skipped. A vote is \<open>None\<close> when the
  call brought no vote back.
\<close>

definition voto_commit :: "Voto2PC option \<Rightarrow> bool" where
  "voto_commit v = (case v of Some x \<Rightarrow> voto x = ''VOTE_COMMIT'' | None \<Rightarrow> False)"

fun votos_dos_remotos ::
  "rede \<Rightarrow> Transacao2PC \<Rightarrow> string list \<Rightarrow> mundo \<Rightarrow> Voto2PC option list" where
  "votos_dos_remotos rd transacao [] w = []"
| "votos_dos_remotos rd transacao (servidor_url # resto) w =
     (case enviar_prepare rd servidor_url transacao ''/transacao/abrir_pacote/prepare'' w of
        (v, w') \<Rightarrow> v # votos_dos_remotos rd transacao resto w')"

definition votos_abertura_pacote ::
  "rede \<Rightarrow> string \<Rightarrow> string list \<Rightarrow> string \<Rightarrow> string \<Rightarrow> mundo \<Rightarrow> Voto2PC option list" where
  "votos_abertura_pacote rd url_local servidores_jogo id_tx id_jog w =
     (let transacao = transacao_abertura_pacote url_local id_tx id_jog
      in case participante_prepare_abrir_pacote_logica url_local transacao
                (registrar_transacao url_local transacao w) of
           (voto_local, w1) \<Rightarrow>
             (case voto_local of Inr v \<Rightarrow> Some v | Inl _ \<Rightarrow> None)
             # votos_dos_remotos rd transacao (outros_servidores url_local servidores_jogo) w1)"

section \<open>Client endpoints (servidor/main.py)\<close>

text \<open>
  An endpoint returns the HTTP status of its answer with the inventory the answer
  carries, if any. An exception that the endpoint does not handle is answered with 500.
\<close>

text \<open>
  \<open>ServicoPubSub.publicar\<close> passes the event to \<open>json.dumps\<close>, which raises TypeError
  on a value that is not a JSON type. The values of the events are strings, but for the
  list of \<open>Carta\<close> objects in the event of an opened pack: a non-empty list of them
  cannot be serialised. Publishing does not touch the store; the events that hold strings
  only (new player, trade, failed opening) cannot fail here and are left out.
\<close>

datatype valor_evento = Texto string | Objetos "Carta list"

definition publicar :: "string \<Rightarrow> (string \<times> valor_evento) list \<Rightarrow> erro option" where
  "publicar canal evento =
     (if list_ex (\<lambda>(chave, v). case v of Objetos cartas_do_evento \<Rightarrow> cartas_do_evento \<noteq> []
                                        | Texto _ \<Rightarrow> False) evento
      then Some TypeError else None)"

text \<open>The slice \<open>xs[-n:]\<close>.\<close>

definition ultimas :: "nat \<Rightarrow> 'a list \<Rightarrow> 'a list" where
  "ultimas n xs = drop (length xs - n) xs"


definition ver_inventario :: "string \<Rightarrow> mundo \<Rightarrow> nat \<times> Inventario option" where
  "ver_inventario id_jog w =
     (case get_inventario (cs w) id_jog of None \<Rightarrow> (404, None) | Some i \<Rightarrow> (200, Some i))"

text \<open>
  \<open>abrir_pacote\<close> is a synchronous endpoint, which the server runs on a worker thread:
  other requests may be served between its accesses to the store. Its stretches are
  therefore given one by one. It reads the inventory and checks it; it takes one pack
  from its copy and writes the copy; it runs the transaction; and it concludes: after a
  commit it reads the inventory again and publishes the last three cards, after an abort
  it gives the pack back to the copy it holds and writes that copy.
\<close>

definition abrir_pacote_ler :: "string \<Rightarrow> mundo \<Rightarrow> nat + Inventario" where
  "abrir_pacote_ler id_jog w =
     (case get_inventario (cs w) id_jog of
        None \<Rightarrow> Inl 404
      | Some inventario \<Rightarrow>
          if pacotes_disponiveis inventario \<le> 0 then Inl 400 else Inr inventario)"

definition abrir_pacote_reservar :: "Inventario \<Rightarrow> mundo \<Rightarrow> Inventario \<times> mundo" where
  "abrir_pacote_reservar inventario w =
     (let inventario1 =
            inventario\<lparr>pacotes_disponiveis := pacotes_disponiveis inventario - 1\<rparr>
      in (inventario1, w\<lparr>cs := set_inventario inventario1 (cs w)\<rparr>))"

definition abrir_pacote_concluir ::
  "string \<Rightarrow> Inventario \<Rightarrow> erro + bool \<Rightarrow> mundo \<Rightarrow> (nat \<times> Inventario option) \<times> mundo" where
  "abrir_pacote_concluir id_jog inventario1 resultado w =
     (case resultado of
        Inl _ \<Rightarrow> ((500, None), w)
      | Inr sucesso \<Rightarrow>
          if sucesso then
            (case get_inventario (cs w) id_jog of
               None \<Rightarrow> ((500, None), w)
             | Some inventario_atualizado \<Rightarrow>
                 (case publicar (''notificacoes_jogador_'' @ id_jog)
                         [(''tipo'', Texto ''pacote_aberto''), (''status'', Texto ''sucesso''),
                          (''cartas_obtidas'',
                           Objetos (ultimas 3 (cartas inventario_atualizado)))] of
                    Some _ \<Rightarrow> ((500, None), w)
                  | None \<Rightarrow> ((200, Some inventario_atualizado), w)))
          else
            ((500, None),
             w\<lparr>cs := set_inventario
                        (inventario1\<lparr>pacotes_disponiveis :=
                           pacotes_disponiveis inventario1 + 1\<rparr>) (cs w)\<rparr>))"

text \<open>The request served with no other request in between.\<close>

definition abrir_pacote ::
  "rede \<Rightarrow> string \<Rightarrow> string list \<Rightarrow> string \<Rightarrow> string \<Rightarrow> mundo
     \<Rightarrow> (nat \<times> Inventario option) \<times> mundo" where
  "abrir_pacote rd url_local servidores_jogo id_tx id_jog w =
     (case abrir_pacote_ler id_jog w of
        Inl codigo \<Rightarrow> ((codigo, None), w)
      | Inr inventario \<Rightarrow>
          (case abrir_pacote_reservar inventario w of
             (inventario1, w1) \<Rightarrow>
               (case iniciar_transacao_abertura_pacote rd url_local servidores_jogo id_tx
                       id_jog w1 of
                  (resultado, w2) \<Rightarrow> abrir_pacote_concluir id_jog inventario1 resultado w2)))"

definition iniciar_troca_cartas ::
  "rede \<Rightarrow> string \<Rightarrow> string list \<Rightarrow> string \<Rightarrow> string \<Rightarrow> string \<Rightarrow> string \<Rightarrow> string
     \<Rightarrow> mundo \<Rightarrow> nat \<times> mundo" where
  "iniciar_troca_cartas rd url_local servidores_jogo id_tx jog_a jog_b carta_a carta_b w =
     (let detalhes = \<lparr>id_jogador_a = jog_a, id_carta_a = carta_a,
                       id_jogador_b = jog_b, id_carta_b = carta_b\<rparr>
      in case iniciar_transacao_troca_cartas rd url_local servidores_jogo id_tx detalhes w of
           (Inl _, w1) \<Rightarrow> (500, w1)
         | (Inr sucesso, w1) \<Rightarrow> if sucesso then (200, w1) else (500, w1))"

text \<open>
  The requests a node serves, with the values that \<open>uuid.uuid4()\<close> yields while serving
  them, and the state a request leaves when it is served with no other request in between.
  The endpoints of pairing and of match play publish events and touch neither the store
  nor the node.
\<close>

datatype requisicao =
  Get_status
  | Get_servidores
  | Post_jogador_entrar string string
  | Get_inventario string
  | Post_pacote_abrir string string
  | Post_inventario_troca string string string string string
  | Post_transacao_abrir_pacote_prepare Transacao2PC
  | Post_transacao_abrir_pacote_commit_abort Resultado2PC
  | Post_inventario_troca_prepare Transacao2PC
  | Post_inventario_troca_commit_abort Resultado2PC
  | Post_pareamento_solicitar string string
  | Post_partida_jogada string string string


section \<open>Packs held by the players\<close>

text \<open>
  The packs a player has at hand (none without an inventory); the layout of the keys
  \<open>inventario:<id>\<close>, each holding the inventory of the player it names; and the relation
  between the store before and after a step that hands out no pack.
\<close>

definition pacotes_de :: "redis \<Rightarrow> string \<Rightarrow> int" where
  "pacotes_de r j = (case get_inventario r j of Some i \<Rightarrow> pacotes_disponiveis i | None \<Rightarrow> 0)"

definition chaves_coerentes :: "redis \<Rightarrow> bool" where
  "chaves_coerentes r = (\<forall>j i. chaves_inventario r j = Some i \<longrightarrow> id_jogador i = j)"

definition nao_concede :: "redis \<Rightarrow> redis \<Rightarrow> bool" where
  "nao_concede r r' =
     (chaves_coerentes r \<longrightarrow> chaves_coerentes r' \<and> (\<forall>j. pacotes_de r' j \<le> pacotes_de r j))"

section \<open>Latency probe (servidor/main.py, udp\_listener)\<close>

text \<open>
  The listener binds a socket and then loops: \<open>recvfrom(1024)\<close>, \<open>sendto\<close>. A pass of the
  loop either receives a datagram and sends the reply, or an exception is raised by
  \<open>recvfrom\<close> or by \<open>sendto\<close>, which ends the listener. \<open>recvfrom(1024)\<close> hands over at most
  the first 1024 bytes of a datagram. The function maps what arrives at the socket to the
  datagrams sent.
\<close>

type_synonym endereco = "string \<times> nat"

datatype chegada =
  Recebido "8 word list" endereco
  | Falha_envio "8 word list" endereco
  | Falha_recepcao

fun laco_udp :: "chegada list \<Rightarrow> (8 word list \<times> endereco) list" where
  "laco_udp [] = []"
| "laco_udp (Recebido data addr # resto) = (take 1024 data, addr) # laco_udp resto"
| "laco_udp (Falha_envio data addr # resto) = []"
| "laco_udp (Falha_recepcao # resto) = []"

definition udp_listener :: "bool \<Rightarrow> chegada list \<Rightarrow> (8 word list \<times> endereco) list" where
  "udp_listener bind_ok chegadas = (if bind_ok then laco_udp chegadas else [])"

section \<open>States used in the examples\<close>

text \<open>
  A store that holds \<open>n\<close> packs and nothing else; a cluster on that store whose nodes
  have no pending transaction; a network that delivers every request.
\<close>

definition redis_exemplo :: "int \<Rightarrow> redis" where
  "redis_exemplo n =
     \<lparr>chave_estoque = Some \<lparr>pacotes_restantes = n\<rparr>,
      chaves_inventario = Map.empty, chaves_transacao = Map.empty\<rparr>"

definition no_inicial :: no where
  "no_inicial = \<lparr>transacoes_em_andamento = Map.empty, aleatorio = (\<lambda>_. 0)\<rparr>"

definition mundo_exemplo :: "int \<Rightarrow> mundo" where
  "mundo_exemplo n = \<lparr>cs = redis_exemplo n, nos = (\<lambda>_. no_inicial)\<rparr>"

definition rede_boa :: rede where
  "rede_boa = \<lparr>no_prepare = (\<lambda>_. Entregue), na_decisao = (\<lambda>_. Entregue)\<rparr>"

definition estoque :: "mundo \<Rightarrow> int" where
  "estoque w = pacotes_restantes (get_estoque_global (cs w))"

text \<open>
  Alice holds the card \<open>C-A1\<close> and Bob the card \<open>C-B1\<close>; a pack opening and a trade as
  the coordinator \<open>n1\<close> builds them; the states after \<open>n1\<close> has voted on each, and after
  it has then received the decision.
\<close>

definition carta_exemplo :: "string \<Rightarrow> Carta" where
  "carta_exemplo c = \<lparr>id_carta = c, nome = ''Pedra (Seixo de Rio)'', tipo = ''pedra'',
                       skin = ''Seixo de Rio'', raridade = ''Comum''\<rparr>"

definition mundo_troca :: mundo where
  "mundo_troca =
     \<lparr>cs = \<lparr>chave_estoque = Some \<lparr>pacotes_restantes = 50\<rparr>,
             chaves_inventario =
               [''alice'' \<mapsto> \<lparr>id_jogador = ''alice'', cartas = [carta_exemplo ''C-A1''],
                                pacotes_disponiveis = 0\<rparr>,
                ''bob'' \<mapsto> \<lparr>id_jogador = ''bob'', cartas = [carta_exemplo ''C-B1''],
                              pacotes_disponiveis = 0\<rparr>],
             chaves_transacao = Map.empty\<rparr>,
      nos = (\<lambda>_. no_inicial)\<rparr>"

definition transacao_pacote_exemplo :: Transacao2PC where
  "transacao_pacote_exemplo =
     \<lparr>id_transacao = ''t1'', coordenador_url = ''n1'', tipo_operacao = ''abrir_pacote'',
      status = ''PREPARAR'', dados = Dados_pacote ''p1'' 1\<rparr>"

definition transacao_troca_exemplo :: Transacao2PC where
  "transacao_troca_exemplo =
     \<lparr>id_transacao = ''t2'', coordenador_url = ''n1'', tipo_operacao = ''troca_cartas'',
      status = ''PREPARAR'',
      dados = Dados_troca \<lparr>id_jogador_a = ''alice'', id_carta_a = ''C-A1'',
                            id_jogador_b = ''bob'', id_carta_b = ''C-B1''\<rparr>\<rparr>"

definition abortar_t1 :: Resultado2PC where
  "abortar_t1 = \<lparr>id_transacao_r = ''t1'', servidor_url_r = ''n1'', decisao = ''GLOBAL_ABORT''\<rparr>"


definition confirmar_t2 :: Resultado2PC where
  "confirmar_t2 = \<lparr>id_transacao_r = ''t2'', servidor_url_r = ''n1'', decisao = ''GLOBAL_COMMIT''\<rparr>"

definition pacote_preparado :: mundo where
  "pacote_preparado =
     snd (participante_prepare_abrir_pacote_logica ''n1'' transacao_pacote_exemplo (mundo_exemplo 5))"

definition pacote_abortado :: mundo where
  "pacote_abortado =
     snd (participante_commit_abort_abrir_pacote_logica ''n1'' abortar_t1 pacote_preparado)"

definition troca_preparada :: mundo where
  "troca_preparada =
     snd (participante_prepare_troca_cartas_logica ''n1'' transacao_troca_exemplo mundo_troca)"

definition troca_confirmada :: mundo where
  "troca_confirmada =
     snd (participante_commit_abort_troca_cartas_logica ''n1'' confirmar_t2 troca_preparada)"

text \<open>Alice alone, holding the cards \<open>C-A1\<close> and \<open>C-A2\<close>.\<close>

definition mundo_troca_propria :: mundo where
  "mundo_troca_propria =
     \<lparr>cs = \<lparr>chave_estoque = Some \<lparr>pacotes_restantes = 50\<rparr>,
             chaves_inventario =
               [''alice'' \<mapsto> \<lparr>id_jogador = ''alice'',
                                cartas = [carta_exemplo ''C-A1'', carta_exemplo ''C-A2''],
                                pacotes_disponiveis = 0\<rparr>],
             chaves_transacao = Map.empty\<rparr>,
      nos = (\<lambda>_. no_inicial)\<rparr>"


text \<open>A network on which the node \<open>n2\<close> cannot be reached for a prepare.\<close>

definition rede_sem_n2 :: rede where
  "rede_sem_n2 =
     \<lparr>no_prepare = (\<lambda>_. Entregue)(''n2'' := Sem_conexao), na_decisao = (\<lambda>_. Entregue)\<rparr>"

definition inventario_alice :: Inventario where
  "inventario_alice = \<lparr>id_jogador = ''alice'', cartas = [carta_exemplo ''C-A1''],
                                pacotes_disponiveis = 0\<rparr>"












section \<open>Properties of the store\<close>


lemma decrementar_estoque_atomico_retorna:
  "\<exists>t \<in> set ts. \<not> eh_conflito t \<Longrightarrow> decrementar_estoque_atomico q ts r \<noteq> None"
  by (induction q ts r rule: decrementar_estoque_atomico.induct)
     (auto simp: eh_conflito_def Let_def)

lemma incrementar_estoque_atomico_retorna:
  "\<exists>t \<in> set ts. \<not> eh_conflito t \<Longrightarrow> incrementar_estoque_atomico q ts r \<noteq> None"
  by (induction q ts r rule: incrementar_estoque_atomico.induct)
     (auto simp: eh_conflito_def Let_def)

section \<open>C3: the contract of the atomic decrement\<close>




section \<open>C9: the UDP echo\<close>

text \<open>
  C9, as stated, fails: a datagram of 1025 bytes is answered with its first 1024 bytes, so
  the reply is not the datagram received.
\<close>

theorem udp_listener_trunca_contraexemplo:
  "udp_listener True [Recebido (replicate 1025 0) (''10.0.0.7'', 40000)]
     \<noteq> [(replicate 1025 0, (''10.0.0.7'', 40000))]"
proof
  assume "udp_listener True [Recebido (replicate 1025 0) (''10.0.0.7'', 40000)]
            = [(replicate 1025 0, (''10.0.0.7'', 40000))]"
  then have "take 1024 (replicate 1025 (0::8 word)) = replicate 1025 0"
    by (simp add: udp_listener_def)
  then have "length (take 1024 (replicate 1025 (0::8 word))) = length (replicate 1025 (0::8 word))"
    by (rule arg_cong)
  then show False by simp
qed

text \<open>
  C9, amended. While the socket raises no exception, the listener answers every datagram
  received, in the order of arrival and to the sender's address, with the first 1024 bytes
  of the datagram; so a datagram of at most 1024 bytes is echoed verbatim.
\<close>

theorem udp_listener_eco:
  "udp_listener True (map (\<lambda>(data, addr). Recebido data addr) ds)
     = map (\<lambda>(data, addr). (take 1024 data, addr)) ds
   \<and> ((\<forall>(data, addr) \<in> set ds. length data \<le> 1024) \<longrightarrow>
        udp_listener True (map (\<lambda>(data, addr). Recebido data addr) ds) = ds)"
proof -
  have eco: "laco_udp (map (\<lambda>(data, addr). Recebido data addr) ds)
               = map (\<lambda>(data, addr). (take 1024 data, addr)) ds"
    by (induction ds) auto
  have "(\<forall>(data, addr) \<in> set ds. length data \<le> 1024) \<Longrightarrow>
          map (\<lambda>(data, addr). (take 1024 data, addr)) ds = ds"
    by (induction ds) auto
  with eco show ?thesis by (simp add: udp_listener_def)
qed

theorem udp_listener_eco_witness:
  "length [80, 73, 78, 71 :: 8 word] \<le> 1024
   \<and> udp_listener True [Recebido [80, 73, 78, 71] (''10.0.0.7'', 40000)]
       = [([80, 73, 78, 71], (''10.0.0.7'', 40000))]"
  using udp_listener_eco [of "[([80, 73, 78, 71], (''10.0.0.7'', 40000))]"]
  by simp

section \<open>C1 and C2: the stock across a pack opening\<close>

lemmas execucao_abertura =
  iniciar_transacao_abertura_pacote_def votar_abertura_pacote_def
  participante_prepare_abrir_pacote_logica_def finalizar_transacao_generica_def
  participante_commit_abort_abrir_pacote_logica_def sem_disputa_def
  em_andamento_def em_andamento_put_def em_andamento_pop_def outros_servidores_def
  procurar_transacao_def inventario_ou_novo_def registrar_transacao_def
  transacao_abertura_pacote_def transacao_troca_cartas_def
  enviar_prepare_def enviar_decisao_def post_prepare_def post_commit_abort_def
  get_estoque_global_def set_estoque_global_def set_transacao_def get_transacao_def
  remover_transacao_def get_inventario_def set_inventario_def Inventario_novo_def
  simular_abertura_pacote_def split_def Let_def

lemmas estados_exemplo =
  mundo_exemplo_def redis_exemplo_def no_inicial_def rede_boa_def estoque_def

text \<open>
  C1 fails on the code. Two nodes \<open>n1\<close> and \<open>n2\<close> share the store, which holds 50 packs,
  and every request is delivered. One pack opening coordinated by \<open>n1\<close> is committed and
  leaves 48 packs: each of the two participants has taken one pack from the shared stock
  in its prepare, and the commit gives none back. The claim has the stock go down by the
  quantity opened, 1, to 49.
\<close>

theorem abertura_confirmada_desconta_por_participante:
  "fst (iniciar_transacao_abertura_pacote rede_boa ''n1'' [''n1'', ''n2''] ''t1'' ''p1''
          (mundo_exemplo 50)) = Inr True
   \<and> estoque (mundo_exemplo 50) = 50
   \<and> estoque (snd (iniciar_transacao_abertura_pacote rede_boa ''n1'' [''n1'', ''n2''] ''t1'' ''p1''
                      (mundo_exemplo 50))) = 48"
  by (simp add: execucao_abertura estados_exemplo)

text \<open>
  C2 fails on the code. A single node \<open>n1\<close> coordinates a pack opening while the stock is
  0. Its own prepare reserves nothing and votes VOTE\_ABORT; the abort branch of the decide
  step then adds the quantity to the stock all the same, and the stock is 1 after the
  aborted transaction. The claim has it equal to its value at the start, 0.
\<close>

theorem abertura_abortada_devolve_sem_reserva:
  "fst (iniciar_transacao_abertura_pacote rede_boa ''n1'' [''n1''] ''t1'' ''p1''
          (mundo_exemplo 0)) = Inr False
   \<and> estoque (mundo_exemplo 0) = 0
   \<and> estoque (snd (iniciar_transacao_abertura_pacote rede_boa ''n1'' [''n1''] ''t1'' ''p1''
                      (mundo_exemplo 0))) = 1"
  by (simp add: execucao_abertura estados_exemplo)

section \<open>The pending tables\<close>

lemma em_andamento_pop_ausente:
  "em_andamento w url t = None \<Longrightarrow> em_andamento_pop url t w = w"
  by (simp add: em_andamento_def em_andamento_pop_def fun_upd_idem)

lemma em_andamento_pop_None [simp]:
  "em_andamento (em_andamento_pop url t w) url t = None"
  by (simp add: em_andamento_def em_andamento_pop_def)

lemma cs_em_andamento_pop [simp]: "cs (em_andamento_pop url t w) = cs w"
  by (simp add: em_andamento_pop_def)

lemma cs_em_andamento_put [simp]: "cs (em_andamento_put url t w) = cs w"
  by (simp add: em_andamento_put_def)

lemma get_transacao_remover [simp]: "get_transacao (remover_transacao t r) t = None"
  by (simp add: get_transacao_def remover_transacao_def)

section \<open>C6: the decide step is idempotent\<close>

lemma pacote_decidido:
  assumes "participante_commit_abort_abrir_pacote_logica url res w = (None, w')"
  shows "em_andamento w' url (id_transacao_r res) = None
         \<and> get_transacao (cs w') (id_transacao_r res) = None"
  using assms
  by (auto simp: participante_commit_abort_abrir_pacote_logica_def Let_def em_andamento_def
        em_andamento_pop_def procurar_transacao_def
      split: option.splits dados_transacao.splits if_splits prod.splits)

lemma pacote_sem_transacao:
  assumes "em_andamento w url (id_transacao_r res) = None"
    and "get_transacao (cs w) (id_transacao_r res) = None"
  shows "participante_commit_abort_abrir_pacote_logica url res w = (None, w)"
  using assms
  by (simp add: participante_commit_abort_abrir_pacote_logica_def Let_def em_andamento_pop_ausente
        procurar_transacao_def)

lemma troca_decidida:
  assumes "participante_commit_abort_troca_cartas_logica url res w = (None, w')"
  shows "em_andamento w' url (id_transacao_r res) = None
         \<and> get_transacao (cs w') (id_transacao_r res) = None"
  using assms
  by (auto simp: participante_commit_abort_troca_cartas_logica_def Let_def em_andamento_def
        em_andamento_pop_def procurar_transacao_def
      split: option.splits dados_transacao.splits if_splits prod.splits)

lemma troca_sem_transacao:
  assumes "em_andamento w url (id_transacao_r res) = None"
    and "get_transacao (cs w) (id_transacao_r res) = None"
  shows "participante_commit_abort_troca_cartas_logica url res w = (None, w)"
  using assms
  by (simp add: participante_commit_abort_troca_cartas_logica_def Let_def em_andamento_pop_ausente
        procurar_transacao_def)

lemmas execucao_participantes =
  participante_prepare_abrir_pacote_logica_def participante_commit_abort_abrir_pacote_logica_def
  participante_prepare_troca_cartas_logica_def participante_commit_abort_troca_cartas_logica_def
  trocar_def possui_carta_def sem_disputa_def procurar_transacao_def inventario_ou_novo_def
  registrar_transacao_def transacao_abertura_pacote_def transacao_troca_cartas_def
  em_andamento_def em_andamento_put_def em_andamento_pop_def
  get_estoque_global_def set_estoque_global_def set_transacao_def get_transacao_def
  remover_transacao_def get_inventario_def set_inventario_def Inventario_novo_def Let_def

lemmas exemplos_participantes =
  pacote_preparado_def pacote_abortado_def troca_preparada_def troca_confirmada_def
  transacao_pacote_exemplo_def transacao_troca_exemplo_def abortar_t1_def confirmar_t2_def
  mundo_troca_def carta_exemplo_def mundo_exemplo_def redis_exemplo_def no_inicial_def estoque_def

text \<open>
  C6. For a pack opening and for a trade alike: when a participant has processed a
  decision (the handler has returned, leaving the state \<open>w'\<close>), processing the same
  decision again returns and leaves \<open>w'\<close> as it is: the store (stock, inventories,
  transaction records) and the node's own table are those of the single delivery.
\<close>

theorem decisao_idempotente:
  "(participante_commit_abort_abrir_pacote_logica url res w = (None, w') \<longrightarrow>
      participante_commit_abort_abrir_pacote_logica url res w' = (None, w'))
   \<and> (participante_commit_abort_troca_cartas_logica url res w = (None, w'') \<longrightarrow>
      participante_commit_abort_troca_cartas_logica url res w'' = (None, w''))"
  using pacote_decidido pacote_sem_transacao troca_decidida troca_sem_transacao by blast

theorem decisao_idempotente_witness:
  "participante_commit_abort_abrir_pacote_logica ''n1'' abortar_t1 pacote_preparado
     = (None, pacote_abortado)
   \<and> estoque pacote_preparado = 4 \<and> estoque pacote_abortado = 5
   \<and> participante_commit_abort_abrir_pacote_logica ''n1'' abortar_t1 pacote_abortado
     = (None, pacote_abortado)
   \<and> participante_commit_abort_troca_cartas_logica ''n1'' confirmar_t2 troca_preparada
     = (None, troca_confirmada)
   \<and> map_option cartas (get_inventario (cs troca_confirmada) ''alice'')
     = Some [carta_exemplo ''C-B1'']
   \<and> participante_commit_abort_troca_cartas_logica ''n1'' confirmar_t2 troca_confirmada
     = (None, troca_confirmada)"
proof -
  have "fst (participante_commit_abort_abrir_pacote_logica ''n1'' abortar_t1 pacote_preparado)
          = None"
    by (simp add: execucao_participantes exemplos_participantes)
  then have p: "participante_commit_abort_abrir_pacote_logica ''n1'' abortar_t1 pacote_preparado
                  = (None, pacote_abortado)"
    by (simp add: pacote_abortado_def prod_eq_iff)
  have "fst (participante_commit_abort_troca_cartas_logica ''n1'' confirmar_t2 troca_preparada)
          = None"
    by (simp add: execucao_participantes exemplos_participantes)
  then have t: "participante_commit_abort_troca_cartas_logica ''n1'' confirmar_t2 troca_preparada
                  = (None, troca_confirmada)"
    by (simp add: troca_confirmada_def prod_eq_iff)
  have e: "estoque pacote_preparado = 4" "estoque pacote_abortado = 5"
    by (simp_all add: execucao_participantes exemplos_participantes)
  have c: "map_option cartas (get_inventario (cs troca_confirmada) ''alice'')
             = Some [carta_exemplo ''C-B1'']"
    by (simp add: execucao_participantes exemplos_participantes)
  from decisao_idempotente [of "''n1''" abortar_t1 pacote_preparado pacote_abortado]
       decisao_idempotente [of "''n1''" confirmar_t2 troca_preparada _ troca_confirmada]
       p t e c
  show ?thesis by blast
qed

section \<open>C5: the commit of a trade\<close>

lemmas execucao_troca =
  iniciar_troca_cartas_def iniciar_transacao_troca_cartas_def votar_troca_cartas_def
  finalizar_transacao_generica_def outros_servidores_def
  enviar_prepare_def enviar_decisao_def post_prepare_def post_commit_abort_def

text \<open>
  Between two different players the commit branch writes both legs of the swap or no
  inventory at all.
\<close>

lemma trocar_dois_jogadores:
  assumes "id_jogador_a det \<noteq> id_jogador_b det" and "chaves_coerentes r"
  shows "chaves_inventario (trocar det r) = chaves_inventario r
         \<or> (\<exists>ia ib ca cb.
               get_inventario r (id_jogador_a det) = Some ia
               \<and> get_inventario r (id_jogador_b det) = Some ib
               \<and> find (\<lambda>c. id_carta c = id_carta_a det) (cartas ia) = Some ca
               \<and> find (\<lambda>c. id_carta c = id_carta_b det) (cartas ib) = Some cb
               \<and> chaves_inventario (trocar det r)
                   = (chaves_inventario r)
                       (id_jogador_a det \<mapsto> ia\<lparr>cartas := remove1 ca (cartas ia) @ [cb]\<rparr>,
                        id_jogador_b det \<mapsto> ib\<lparr>cartas := remove1 cb (cartas ib) @ [ca]\<rparr>))"
  using assms
  by (auto simp: trocar_def get_inventario_def set_inventario_def chaves_coerentes_def
      split: option.splits)

text \<open>
  C5 fails on the code. Alice holds \<open>C-A1\<close> and \<open>C-A2\<close> and a trade is requested with Alice
  as both players, \<open>C-A1\<close> against \<open>C-A2\<close>. The commit handler loads her inventory twice,
  applies one leg of the swap to each copy and writes both copies under the same key: the
  second write replaces the first. The request is answered with 200 and Alice is left with
  two copies of \<open>C-A1\<close> and without \<open>C-A2\<close>: the leg that removes \<open>C-A1\<close> and inserts \<open>C-A2\<close>
  is lost, the other one is applied.
\<close>

theorem troca_consigo_aplica_uma_perna:
  "fst (iniciar_troca_cartas rede_boa ''n1'' [''n1''] ''t1'' ''alice'' ''alice'' ''C-A1'' ''C-A2''
          mundo_troca_propria) = 200
   \<and> map_option cartas (get_inventario (cs mundo_troca_propria) ''alice'')
       = Some [carta_exemplo ''C-A1'', carta_exemplo ''C-A2'']
   \<and> map_option cartas
        (get_inventario
           (cs (snd (iniciar_troca_cartas rede_boa ''n1'' [''n1''] ''t1'' ''alice'' ''alice''
                       ''C-A1'' ''C-A2'' mundo_troca_propria))) ''alice'')
       = Some [carta_exemplo ''C-A1'', carta_exemplo ''C-A1'']"
  by (simp add: execucao_troca execucao_participantes mundo_troca_propria_def carta_exemplo_def
        no_inicial_def rede_boa_def)

section \<open>C7: the cards of a committed pack opening\<close>















section \<open>C4: commit if and only if the vote is unanimous\<close>

lemma sem_disputa_decrementar:
  "sem_disputa (decrementar_estoque_atomico q) r =
     (if pacotes_restantes (get_estoque_global r) < q then (False, r)
      else (True, set_estoque_global
                    ((get_estoque_global r)\<lparr>pacotes_restantes :=
                       pacotes_restantes (get_estoque_global r) - q\<rparr>) r))"
  by (simp add: sem_disputa_def Let_def)

lemma sem_disputa_incrementar:
  "sem_disputa (incrementar_estoque_atomico q) r =
     (True, set_estoque_global
              ((get_estoque_global r)\<lparr>pacotes_restantes :=
                 pacotes_restantes (get_estoque_global r) + q\<rparr>) r)"
  by (simp add: sem_disputa_def Let_def)

lemma nos_registrar: "x \<noteq> u \<Longrightarrow> nos (registrar_transacao u t w) x = nos w x"
  by (simp add: registrar_transacao_def em_andamento_put_def Let_def)

lemma em_andamento_registrar:
  "em_andamento (registrar_transacao u t w) u (id_transacao t) = Some t"
  by (simp add: registrar_transacao_def em_andamento_put_def em_andamento_def Let_def)

lemma nos_prepare_pacote:
  "x \<noteq> u \<Longrightarrow> nos (snd (participante_prepare_abrir_pacote_logica u t w)) x = nos w x"
  by (simp add: participante_prepare_abrir_pacote_logica_def Let_def nos_registrar split_def
      split: dados_transacao.splits)

lemma nos_prepare_troca:
  "x \<noteq> u \<Longrightarrow> nos (snd (participante_prepare_troca_cartas_logica u t w)) x = nos w x"
  by (simp add: participante_prepare_troca_cartas_logica_def Let_def nos_registrar split_def
      split: dados_transacao.splits)

lemma nos_post_prepare:
  "x \<noteq> u \<Longrightarrow> nos (snd (post_prepare u e t w)) x = nos w x"
  by (simp add: post_prepare_def nos_prepare_pacote nos_prepare_troca split_def split: sum.splits)

lemma nos_enviar_prepare:
  "x \<noteq> u \<Longrightarrow> nos (snd (enviar_prepare rd u t e w)) x = nos w x"
  by (simp add: enviar_prepare_def nos_post_prepare split: ligacao.splits)

lemma nos_votos_remotos:
  "x \<notin> set us \<Longrightarrow> nos (snd (votos_remotos rd t us k w)) x = nos w x"
proof (induction us arbitrary: k w)
  case Nil
  then show ?case by simp
next
  case (Cons u us)
  then have "x \<noteq> u" "x \<notin> set us" by auto
  with Cons.IH show ?case
    by (simp add: split_def nos_enviar_prepare)
qed

lemma votos_remotos_todos:
  "fst (votos_remotos rd t us k w) =
     (if list_all voto_commit (votos_dos_remotos rd t us w) then Some (k + length us) else None)"
proof (induction us arbitrary: k w)
  case Nil
  then show ?case by simp
next
  case (Cons u us)
  show ?case
    by (cases "enviar_prepare rd u t ''/transacao/abrir_pacote/prepare'' w")
       (simp add: Cons.IH voto_commit_def)
qed

lemma length_outros_servidores:
  "length (outros_servidores x xs) + count_list xs x = length xs"
  by (induction xs) (auto simp: outros_servidores_def)

lemma prepare_pacote_voto:
  assumes "dados t = Dados_pacote j q"
  shows "\<exists>v. fst (participante_prepare_abrir_pacote_logica u t w) = Inr v"
  using assms
  by (simp add: participante_prepare_abrir_pacote_logica_def Let_def split_def)

lemma em_andamento_prepare_pacote:
  "em_andamento (snd (participante_prepare_abrir_pacote_logica u t w)) u (id_transacao t) = Some t"
  by (simp add: participante_prepare_abrir_pacote_logica_def Let_def split_def em_andamento_def
        registrar_transacao_def em_andamento_put_def
      split: dados_transacao.splits)

lemma commit_abort_pacote_sem_erro:
  assumes "procurar_transacao w u (id_transacao_r res) = Some t" "dados t = Dados_pacote j q"
  shows "fst (participante_commit_abort_abrir_pacote_logica u res w) = None"
  using assms
  by (simp add: participante_commit_abort_abrir_pacote_logica_def Let_def split_def)

lemma finalizar_pacote_sem_erro:
  assumes "em_andamento w u id_tx = Some t" "tipo_operacao t = ''abrir_pacote''"
    "dados t = Dados_pacote j q"
  shows "fst (finalizar_transacao_generica rd u servidores id_tx d e w) = None"
proof -
  have p: "procurar_transacao w u id_tx = Some t"
    using assms(1) by (simp add: procurar_transacao_def)
  have "fst (participante_commit_abort_abrir_pacote_logica u
           \<lparr>id_transacao_r = id_tx, servidor_url_r = u, decisao = d\<rparr> w) = None"
    by (rule commit_abort_pacote_sem_erro[where t = t]) (simp_all add: p assms)
  then show ?thesis
    using assms(2) p
    by (simp add: finalizar_transacao_generica_def Let_def split_def split: option.splits)
qed


lemma em_andamento_votos_remotos:
  "x \<notin> set us \<Longrightarrow> em_andamento (snd (votos_remotos rd t us k w)) x i = em_andamento w x i"
  by (simp add: em_andamento_def nos_votos_remotos)

lemma nao_entregue_nao_vota:
  "no_prepare rd u \<noteq> Entregue \<Longrightarrow> fst (enviar_prepare rd u t e w) = None"
  by (simp add: enviar_prepare_def split: ligacao.splits)

lemma votos_dos_remotos_falha:
  "u \<in> set us \<Longrightarrow> no_prepare rd u \<noteq> Entregue \<Longrightarrow>
     \<not> list_all voto_commit (votos_dos_remotos rd t us w)"
proof (induction us arbitrary: w)
  case Nil
  then show ?case by simp
next
  case (Cons a us)
  show ?case
  proof (cases "a = u")
    case True
    with Cons.prems nao_entregue_nao_vota[of rd u t "''/transacao/abrir_pacote/prepare''" w]
    show ?thesis by (simp add: split_def voto_commit_def)
  next
    case False
    with Cons show ?thesis by (simp add: split_def)
  qed
qed

lemma url_local_fora_de_outros: "url_local \<notin> set (outros_servidores url_local servidores_jogo)"
  by (simp add: outros_servidores_def)

lemma votar_abertura_decide:
  assumes um: "count_list servidores_jogo url_local = 1"
    and tx: "dados t = Dados_pacote j q"
  shows "fst (votar_abertura_pacote rd url_local servidores_jogo t w)
         = Inr (if list_all voto_commit
                     ((case fst (participante_prepare_abrir_pacote_logica url_local t w) of
                         Inr v \<Rightarrow> Some v | Inl _ \<Rightarrow> None)
                      # votos_dos_remotos rd t (outros_servidores url_local servidores_jogo)
                          (snd (participante_prepare_abrir_pacote_logica url_local t w)))
                then ''GLOBAL_COMMIT'' else ''GLOBAL_ABORT'')"
proof -
  obtain v where v: "fst (participante_prepare_abrir_pacote_logica url_local t w) = Inr v"
    using prepare_pacote_voto[OF tx] by blast
  define w1 where "w1 = snd (participante_prepare_abrir_pacote_logica url_local t w)"
  have p: "participante_prepare_abrir_pacote_logica url_local t w = (Inr v, w1)"
    using v by (simp add: w1_def prod_eq_iff)
  have n: "Suc (length (outros_servidores url_local servidores_jogo)) = length servidores_jogo"
    using length_outros_servidores[of url_local servidores_jogo] um by simp
  show ?thesis
  proof (cases "voto v = ''VOTE_COMMIT''")
    case False
    then show ?thesis
      by (simp add: votar_abertura_pacote_def p voto_commit_def)
  next
    case True
    obtain x w2 where
      r: "votos_remotos rd t (outros_servidores url_local servidores_jogo) (Suc 0) w1 = (x, w2)"
      by (cases "votos_remotos rd t (outros_servidores url_local servidores_jogo) (Suc 0) w1")
    have x: "x = (if list_all voto_commit
                       (votos_dos_remotos rd t (outros_servidores url_local servidores_jogo) w1)
                  then Some (length servidores_jogo) else None)"
      using votos_remotos_todos[of rd t "outros_servidores url_local servidores_jogo" "Suc 0" w1]
        r n
      by simp
    show ?thesis
      using True
      by (simp add: votar_abertura_pacote_def p r x voto_commit_def w1_def[symmetric])
  qed
qed

lemma em_andamento_votar_abertura:
  "em_andamento (snd (votar_abertura_pacote rd url_local servidores_jogo t w)) url_local
     (id_transacao t) = Some t"
proof -
  have a: "em_andamento (snd (participante_prepare_abrir_pacote_logica url_local t w)) url_local
             (id_transacao t) = Some t"
    by (rule em_andamento_prepare_pacote)
  have b: "em_andamento (snd (votos_remotos rd t (outros_servidores url_local servidores_jogo) k w'))
             url_local i = em_andamento w' url_local i" for k w' i
    by (rule em_andamento_votos_remotos) (rule url_local_fora_de_outros)
  show ?thesis
    using a b[of 1 "snd (participante_prepare_abrir_pacote_logica url_local t w)" "id_transacao t"]
    by (auto simp: votar_abertura_pacote_def split_def split: sum.splits option.splits)
qed

text \<open>
  C4. When the URL of the local node occurs exactly once in the server list, the coordinator
  of a pack opening decides GLOBAL\_COMMIT, and returns True, if and only if the vote of
  the local prepare and the vote of every remote prepare is VOTE\_COMMIT; otherwise it
  decides GLOBAL\_ABORT and returns False. In particular it returns False when a remote
  participant is not reached, answers with an error status or does not answer in time.
\<close>

theorem abertura_commit_sse_unanime:
  assumes "count_list servidores_jogo url_local = 1"
  shows "fst (votar_abertura_pacote rd url_local servidores_jogo
                (transacao_abertura_pacote url_local id_tx id_jog)
                (registrar_transacao url_local
                   (transacao_abertura_pacote url_local id_tx id_jog) w))
           = Inr (if list_all voto_commit
                       (votos_abertura_pacote rd url_local servidores_jogo id_tx id_jog w)
                  then ''GLOBAL_COMMIT'' else ''GLOBAL_ABORT'')
         \<and> fst (iniciar_transacao_abertura_pacote rd url_local servidores_jogo id_tx id_jog w)
           = Inr (list_all voto_commit
                    (votos_abertura_pacote rd url_local servidores_jogo id_tx id_jog w))
         \<and> ((\<exists>u \<in> set (outros_servidores url_local servidores_jogo). no_prepare rd u \<noteq> Entregue)
              \<longrightarrow> fst (iniciar_transacao_abertura_pacote rd url_local servidores_jogo id_tx
                         id_jog w) = Inr False)"
proof -
  define t where "t = transacao_abertura_pacote url_local id_tx id_jog"
  define w1 where "w1 = registrar_transacao url_local t w"
  define vs where "vs = votos_abertura_pacote rd url_local servidores_jogo id_tx id_jog w"
  have tx: "dados t = Dados_pacote id_jog 1" "tipo_operacao t = ''abrir_pacote''"
    "id_transacao t = id_tx"
    by (simp_all add: t_def transacao_abertura_pacote_def)
  have vs: "vs = (case fst (participante_prepare_abrir_pacote_logica url_local t w1) of
                    Inr v \<Rightarrow> Some v | Inl _ \<Rightarrow> None)
                 # votos_dos_remotos rd t (outros_servidores url_local servidores_jogo)
                     (snd (participante_prepare_abrir_pacote_logica url_local t w1))"
    by (simp add: vs_def votos_abertura_pacote_def Let_def split_def t_def w1_def)
  have d: "fst (votar_abertura_pacote rd url_local servidores_jogo t w1)
             = Inr (if list_all voto_commit vs then ''GLOBAL_COMMIT'' else ''GLOBAL_ABORT'')"
    using votar_abertura_decide[OF assms tx(1), of rd w1] by (simp only: vs)
  define w2 where "w2 = snd (votar_abertura_pacote rd url_local servidores_jogo t w1)"
  have e: "em_andamento w2 url_local id_tx = Some t"
    using em_andamento_votar_abertura[of rd url_local servidores_jogo t w1]
    by (simp add: w2_def tx)
  have f: "fst (finalizar_transacao_generica rd url_local servidores_jogo id_tx dec ep w2) = None"
    for dec ep
    by (rule finalizar_pacote_sem_erro[OF e tx(2) tx(1)])
  have i: "fst (iniciar_transacao_abertura_pacote rd url_local servidores_jogo id_tx id_jog w)
             = Inr (list_all voto_commit vs)"
    using d f
    by (simp add: iniciar_transacao_abertura_pacote_def Let_def split_def t_def[symmetric]
          w1_def[symmetric] w2_def[symmetric] split: sum.splits option.splits)
  have "\<not> list_all voto_commit vs"
    if "\<exists>u \<in> set (outros_servidores url_local servidores_jogo). no_prepare rd u \<noteq> Entregue"
    using that votos_dos_remotos_falha by (auto simp: vs)
  with d i show ?thesis
    by (simp add: t_def w1_def vs_def)
qed

lemmas execucao_votos = votos_abertura_pacote_def voto_commit_def
  participante_prepare_abrir_pacote_logica_def sem_disputa_def
  em_andamento_def em_andamento_put_def outros_servidores_def
  registrar_transacao_def transacao_abertura_pacote_def
  enviar_prepare_def post_prepare_def
  get_estoque_global_def set_estoque_global_def set_transacao_def
  split_def Let_def

theorem abertura_commit_sse_unanime_witness:
  "count_list [''n1'', ''n2''] ''n1'' = 1
   \<and> list_all voto_commit
        (votos_abertura_pacote rede_boa ''n1'' [''n1'', ''n2''] ''t1'' ''p1'' (mundo_exemplo 50))
   \<and> fst (iniciar_transacao_abertura_pacote rede_boa ''n1'' [''n1'', ''n2''] ''t1'' ''p1''
            (mundo_exemplo 50)) = Inr True
   \<and> no_prepare rede_sem_n2 ''n2'' \<noteq> Entregue
   \<and> fst (iniciar_transacao_abertura_pacote rede_sem_n2 ''n1'' [''n1'', ''n2''] ''t1'' ''p1''
            (mundo_exemplo 50)) = Inr False"
proof -
  have c: "count_list [''n1'', ''n2''] ''n1'' = 1" by simp
  have v: "list_all voto_commit
        (votos_abertura_pacote rede_boa ''n1'' [''n1'', ''n2''] ''t1'' ''p1'' (mundo_exemplo 50))"
    by (simp add: execucao_votos estados_exemplo)
  have n: "no_prepare rede_sem_n2 ''n2'' \<noteq> Entregue"
    "''n2'' \<in> set (outros_servidores ''n1'' [''n1'', ''n2''])"
    by (simp_all add: rede_sem_n2_def outros_servidores_def)
  have a: "fst (iniciar_transacao_abertura_pacote rede_boa ''n1'' [''n1'', ''n2''] ''t1'' ''p1''
            (mundo_exemplo 50)) = Inr True"
    using abertura_commit_sse_unanime [OF c, of rede_boa "''t1''" "''p1''" "mundo_exemplo 50"] v
    by simp
  have b: "fst (iniciar_transacao_abertura_pacote rede_sem_n2 ''n1'' [''n1'', ''n2''] ''t1'' ''p1''
            (mundo_exemplo 50)) = Inr False"
    using abertura_commit_sse_unanime [OF c, of rede_sem_n2 "''t1''" "''p1''" "mundo_exemplo 50"] n
    by blast
  from c v n(1) a b show ?thesis by simp
qed

section \<open>C8: a trade that names a card the player does not hold\<close>

lemma inv_registrar [simp]:
  "chaves_inventario (cs (registrar_transacao u t w)) = chaves_inventario (cs w)"
  by (simp add: registrar_transacao_def Let_def set_transacao_def)

lemma inv_sem_disputa_decrementar [simp]:
  "chaves_inventario (snd (sem_disputa (decrementar_estoque_atomico q) r)) = chaves_inventario r"
  by (simp add: sem_disputa_decrementar set_estoque_global_def)

lemma inv_sem_disputa_incrementar [simp]:
  "chaves_inventario (snd (sem_disputa (incrementar_estoque_atomico q) r)) = chaves_inventario r"
  by (simp add: sem_disputa_incrementar set_estoque_global_def)

lemma inv_remover_transacao [simp]:
  "chaves_inventario (remover_transacao t r) = chaves_inventario r"
  by (simp add: remover_transacao_def)

lemma inv_prepare_pacote:
  "chaves_inventario (cs (snd (participante_prepare_abrir_pacote_logica u t w)))
     = chaves_inventario (cs w)"
  by (simp add: participante_prepare_abrir_pacote_logica_def Let_def split_def
      split: dados_transacao.splits)

lemma inv_prepare_troca:
  "chaves_inventario (cs (snd (participante_prepare_troca_cartas_logica u t w)))
     = chaves_inventario (cs w)"
  by (simp add: participante_prepare_troca_cartas_logica_def Let_def split_def
      split: dados_transacao.splits)

lemma inv_post_prepare:
  "chaves_inventario (cs (snd (post_prepare u e t w))) = chaves_inventario (cs w)"
  by (simp add: post_prepare_def split_def inv_prepare_pacote inv_prepare_troca split: sum.splits)

lemma inv_enviar_prepare:
  "chaves_inventario (cs (snd (enviar_prepare rd u t e w))) = chaves_inventario (cs w)"
  by (simp add: enviar_prepare_def inv_post_prepare split: ligacao.splits)

lemma inv_abort_pacote:
  "decisao res \<noteq> ''GLOBAL_COMMIT'' \<Longrightarrow>
     chaves_inventario (cs (snd (participante_commit_abort_abrir_pacote_logica u res w)))
       = chaves_inventario (cs w)"
  by (simp add: participante_commit_abort_abrir_pacote_logica_def Let_def split_def
      split: option.splits dados_transacao.splits)

lemma inv_abort_troca:
  "decisao res \<noteq> ''GLOBAL_COMMIT'' \<Longrightarrow>
     chaves_inventario (cs (snd (participante_commit_abort_troca_cartas_logica u res w)))
       = chaves_inventario (cs w)"
  by (simp add: participante_commit_abort_troca_cartas_logica_def Let_def split_def
      split: option.splits dados_transacao.splits)

lemma inv_enviar_abort:
  "decisao res \<noteq> ''GLOBAL_COMMIT'' \<Longrightarrow>
     chaves_inventario (cs (enviar_decisao rd u res e w)) = chaves_inventario (cs w)"
  by (simp add: enviar_decisao_def post_commit_abort_def inv_abort_pacote inv_abort_troca
      split: ligacao.splits)

lemma inv_foldl_abort:
  "decisao res \<noteq> ''GLOBAL_COMMIT'' \<Longrightarrow>
     chaves_inventario (cs (foldl (\<lambda>w' u. enviar_decisao rd u res e w') w us))
       = chaves_inventario (cs w)"
  by (induction us arbitrary: w) (simp_all add: inv_enviar_abort)

lemma inv_finalizar_abort:
  "d \<noteq> ''GLOBAL_COMMIT'' \<Longrightarrow>
     chaves_inventario (cs (snd (finalizar_transacao_generica rd u servidores i d e w)))
       = chaves_inventario (cs w)"
proof -
  assume d: "d \<noteq> ''GLOBAL_COMMIT''"
  let ?res = "\<lparr>id_transacao_r = i, servidor_url_r = u, decisao = d\<rparr>"
  have r: "decisao ?res \<noteq> ''GLOBAL_COMMIT''" using d by simp
  show ?thesis
    by (simp add: finalizar_transacao_generica_def Let_def split_def
          inv_abort_pacote[OF r] inv_abort_troca[OF r] inv_foldl_abort[OF r]
        split: option.splits)
qed


lemma prepare_troca_sem_carta:
  assumes "dados t = Dados_troca det"
    and "get_inventario (cs w) (id_jogador_a det) = Some inv_a"
    and "\<not> possui_carta inv_a (id_carta_a det)"
  shows "\<exists>v. fst (participante_prepare_troca_cartas_logica u t w) = Inr v
              \<and> voto v = ''VOTE_ABORT''"
  using assms
  by (simp add: participante_prepare_troca_cartas_logica_def Let_def get_inventario_def)

lemma enviar_prepare_troca_sem_carta:
  assumes "dados t = Dados_troca det"
    and "get_inventario (cs w) (id_jogador_a det) = Some inv_a"
    and "\<not> possui_carta inv_a (id_carta_a det)"
  shows "\<not> voto_commit (fst (enviar_prepare rd u t ''/inventario/troca/prepare'' w))"
proof -
  obtain v where v: "fst (participante_prepare_troca_cartas_logica u t w) = Inr v"
    "voto v = ''VOTE_ABORT''"
    using prepare_troca_sem_carta[OF assms] by blast
  then show ?thesis
    by (simp add: enviar_prepare_def post_prepare_def split_def voto_commit_def
        split: ligacao.splits)
qed

lemma votos_troca_sem_carta:
  assumes "dados t = Dados_troca det"
    and "get_inventario (cs w) (id_jogador_a det) = Some inv_a"
    and "\<not> possui_carta inv_a (id_carta_a det)"
  shows "fst (votos_troca rd url_local t (u # resto) k w) = Inr None"
proof (cases "u = url_local")
  case True
  obtain v where v: "fst (participante_prepare_troca_cartas_logica url_local t w) = Inr v"
    "voto v = ''VOTE_ABORT''"
    using prepare_troca_sem_carta[OF assms] by blast
  with True show ?thesis by (simp add: split_def)
next
  case False
  with enviar_prepare_troca_sem_carta[OF assms, of rd u] show ?thesis
    by (simp add: split_def voto_commit_def split: option.splits)
qed

lemma inv_votos_troca:
  "chaves_inventario (cs (snd (votos_troca rd url_local t us k w))) = chaves_inventario (cs w)"
proof (induction us arbitrary: k w)
  case Nil
  then show ?case by simp
next
  case (Cons u us)
  show ?case
    by (simp add: split_def Cons.IH inv_prepare_troca inv_enviar_prepare
        split: sum.splits)
qed

lemma inv_votar_troca:
  "chaves_inventario (cs (snd (votar_troca_cartas rd url_local servidores t w)))
     = chaves_inventario (cs w)"
  using inv_votos_troca[of rd url_local t servidores 0 w]
  by (simp add: votar_troca_cartas_def split_def split: sum.splits option.splits)

lemma commit_abort_troca_sem_erro:
  assumes "procurar_transacao w u (id_transacao_r res) = Some t" "dados t = Dados_troca det"
  shows "fst (participante_commit_abort_troca_cartas_logica u res w) = None"
  using assms
  by (simp add: participante_commit_abort_troca_cartas_logica_def Let_def split_def)

lemma finalizar_troca_sem_erro:
  assumes "em_andamento w u id_tx = Some t" "tipo_operacao t = ''troca_cartas''"
    "dados t = Dados_troca det"
  shows "fst (finalizar_transacao_generica rd u servidores id_tx d e w) = None"
proof -
  have p: "procurar_transacao w u id_tx = Some t"
    using assms(1) by (simp add: procurar_transacao_def)
  have "fst (participante_commit_abort_troca_cartas_logica u
           \<lparr>id_transacao_r = id_tx, servidor_url_r = u, decisao = d\<rparr> w) = None"
    by (rule commit_abort_troca_sem_erro[where t = t]) (simp_all add: p assms)
  then show ?thesis
    using assms(2) p
    by (simp add: finalizar_transacao_generica_def Let_def split_def split: option.splits)
qed

lemma troca_sem_servidores:
  "fst (votar_troca_cartas rd u [] t w) = Inr ''GLOBAL_COMMIT''"
  "fst (iniciar_troca_cartas rd u [] id_tx a b ca cb w) = 200"
proof -
  show d: "fst (votar_troca_cartas rd u [] t w) = Inr ''GLOBAL_COMMIT''" for t w
    by (simp add: votar_troca_cartas_def)
  define det where "det = \<lparr>id_jogador_a = a, id_carta_a = ca, id_jogador_b = b, id_carta_b = cb\<rparr>"
  define t0 where "t0 = transacao_troca_cartas u id_tx det"
  define w1 where "w1 = registrar_transacao u t0 w"
  have v: "votar_troca_cartas rd u [] t0 w1 = (Inr ''GLOBAL_COMMIT'', w1)"
    by (simp add: votar_troca_cartas_def)
  have e: "em_andamento w1 u id_tx = Some t0"
    using em_andamento_registrar[of u t0 w]
    by (simp add: w1_def t0_def transacao_troca_cartas_def)
  have f: "fst (finalizar_transacao_generica rd u [] id_tx ''GLOBAL_COMMIT''
                  ''/inventario/troca/commit_abort'' w1) = None"
    by (rule finalizar_troca_sem_erro[OF e]) (simp_all add: t0_def transacao_troca_cartas_def)
  show "fst (iniciar_troca_cartas rd u [] id_tx a b ca cb w) = 200"
    using f
    by (simp add: iniciar_troca_cartas_def iniciar_transacao_troca_cartas_def Let_def
          det_def[symmetric] t0_def[symmetric] w1_def[symmetric] v split_def
        split: option.splits)
qed

text \<open>
  C8, as stated, fails: on a node whose server list is empty (the default when
  SERVIDORES\_JOGO is not set) no prepare is sent, zero commit votes equal the length of
  the list, the decision is GLOBAL\_COMMIT and the endpoint answers 200, although Alice
  does not hold the card \<open>C-XX\<close> that the request names.
\<close>

theorem troca_sem_servidores_contraexemplo:
  "get_inventario (cs mundo_troca) ''alice'' = Some inventario_alice
   \<and> \<not> possui_carta inventario_alice ''C-XX''
   \<and> fst (votar_troca_cartas rede_boa ''n1'' []
            (transacao_troca_cartas ''n1'' ''t1''
               \<lparr>id_jogador_a = ''alice'', id_carta_a = ''C-XX'',
                id_jogador_b = ''bob'', id_carta_b = ''C-B1''\<rparr>)
            (registrar_transacao ''n1''
               (transacao_troca_cartas ''n1'' ''t1''
                  \<lparr>id_jogador_a = ''alice'', id_carta_a = ''C-XX'',
                   id_jogador_b = ''bob'', id_carta_b = ''C-B1''\<rparr>) mundo_troca))
       = Inr ''GLOBAL_COMMIT''
   \<and> fst (iniciar_troca_cartas rede_boa ''n1'' [] ''t1'' ''alice'' ''bob'' ''C-XX'' ''C-B1''
            mundo_troca) = 200"
proof -
  have a: "get_inventario (cs mundo_troca) ''alice'' = Some inventario_alice"
    by (simp add: get_inventario_def mundo_troca_def inventario_alice_def)
  have c: "\<not> possui_carta inventario_alice ''C-XX''"
    by (simp add: possui_carta_def inventario_alice_def carta_exemplo_def)
  from a c show ?thesis by (simp add: troca_sem_servidores)
qed

text \<open>
  C8, amended. When the server list is not empty and the inventory of player A exists and
  does not contain the card named for A: the participant asked first votes VOTE\_ABORT if
  the prepare reaches it, the decision is GLOBAL\_ABORT, every inventory in the store is
  after the request what it was before (neither prepare nor the abort branch of decide
  writes an inventory), and the endpoint answers with the status 500.
\<close>

theorem troca_sem_carta_aborta:
  assumes "servidores_jogo \<noteq> []"
    and "get_inventario (cs w) jog_a = Some inv_a"
    and "\<not> possui_carta inv_a carta_a"
  shows "fst (votar_troca_cartas rd url_local servidores_jogo
                (transacao_troca_cartas url_local id_tx
                   \<lparr>id_jogador_a = jog_a, id_carta_a = carta_a,
                    id_jogador_b = jog_b, id_carta_b = carta_b\<rparr>)
                (registrar_transacao url_local
                   (transacao_troca_cartas url_local id_tx
                      \<lparr>id_jogador_a = jog_a, id_carta_a = carta_a,
                       id_jogador_b = jog_b, id_carta_b = carta_b\<rparr>) w))
           = Inr ''GLOBAL_ABORT''
         \<and> fst (iniciar_troca_cartas rd url_local servidores_jogo id_tx jog_a jog_b carta_a
                  carta_b w) = 500
         \<and> chaves_inventario
             (cs (snd (iniciar_troca_cartas rd url_local servidores_jogo id_tx jog_a jog_b
                         carta_a carta_b w)))
           = chaves_inventario (cs w)
         \<and> (\<exists>v. fst (participante_prepare_troca_cartas_logica (hd servidores_jogo)
                        (transacao_troca_cartas url_local id_tx
                           \<lparr>id_jogador_a = jog_a, id_carta_a = carta_a,
                            id_jogador_b = jog_b, id_carta_b = carta_b\<rparr>)
                        (registrar_transacao url_local
                           (transacao_troca_cartas url_local id_tx
                              \<lparr>id_jogador_a = jog_a, id_carta_a = carta_a,
                               id_jogador_b = jog_b, id_carta_b = carta_b\<rparr>) w)) = Inr v
                 \<and> voto v = ''VOTE_ABORT'')"
proof -
  define det where "det = \<lparr>id_jogador_a = jog_a, id_carta_a = carta_a,
                            id_jogador_b = jog_b, id_carta_b = carta_b\<rparr>"
  define t where "t = transacao_troca_cartas url_local id_tx det"
  define w1 where "w1 = registrar_transacao url_local t w"
  have tx: "dados t = Dados_troca det" by (simp add: t_def transacao_troca_cartas_def)
  have a: "get_inventario (cs w1) (id_jogador_a det) = Some inv_a"
    using assms(2) by (simp add: w1_def det_def get_inventario_def)
  have c: "\<not> possui_carta inv_a (id_carta_a det)"
    using assms(3) by (simp add: det_def)
  obtain u resto where l: "servidores_jogo = u # resto"
    using assms(1) by (cases servidores_jogo) auto
  have v: "fst (votos_troca rd url_local t servidores_jogo 0 w1) = Inr None"
    unfolding l by (rule votos_troca_sem_carta[OF tx a c])
  have d: "fst (votar_troca_cartas rd url_local servidores_jogo t w1) = Inr ''GLOBAL_ABORT''"
    using v by (simp add: votar_troca_cartas_def split_def split: sum.splits option.splits)
  define w2 where "w2 = snd (votar_troca_cartas rd url_local servidores_jogo t w1)"
  have vt: "votar_troca_cartas rd url_local servidores_jogo t w1 = (Inr ''GLOBAL_ABORT'', w2)"
    using d by (simp add: w2_def prod_eq_iff)
  have i2: "chaves_inventario (cs w2) = chaves_inventario (cs w)"
    by (simp add: w2_def inv_votar_troca w1_def)
  define fin where "fin = finalizar_transacao_generica rd url_local servidores_jogo id_tx
                            ''GLOBAL_ABORT'' ''/inventario/troca/commit_abort'' w2"
  have i3: "chaves_inventario (cs (snd fin)) = chaves_inventario (cs w)"
    by (simp add: fin_def inv_finalizar_abort i2)
  have ini: "iniciar_transacao_troca_cartas rd url_local servidores_jogo id_tx det w
               = (case fst fin of Some e \<Rightarrow> Inl e | None \<Rightarrow> Inr False, snd fin)"
    by (simp add: iniciar_transacao_troca_cartas_def Let_def t_def[symmetric]
          w1_def[symmetric] vt fin_def[symmetric] split_def split: option.splits)
  have s: "fst (iniciar_troca_cartas rd url_local servidores_jogo id_tx jog_a jog_b carta_a
                  carta_b w) = 500"
    by (simp add: iniciar_troca_cartas_def Let_def det_def[symmetric] ini
        split: option.splits)
  have i: "chaves_inventario
             (cs (snd (iniciar_troca_cartas rd url_local servidores_jogo id_tx jog_a jog_b
                         carta_a carta_b w))) = chaves_inventario (cs w)"
    by (simp add: iniciar_troca_cartas_def Let_def det_def[symmetric] ini i3
        split: option.splits)
  from d s i prepare_troca_sem_carta[OF tx a c, of "hd servidores_jogo"]
  show ?thesis
    by (simp add: t_def w1_def det_def)
qed

theorem troca_sem_carta_aborta_witness:
  "[''n1'', ''n2''] \<noteq> []
   \<and> get_inventario (cs mundo_troca) ''alice'' = Some inventario_alice
   \<and> \<not> possui_carta inventario_alice ''C-XX''
   \<and> fst (iniciar_troca_cartas rede_boa ''n1'' [''n1'', ''n2''] ''t1'' ''alice'' ''bob'' ''C-XX''
            ''C-B1'' mundo_troca) = 500
   \<and> chaves_inventario
        (cs (snd (iniciar_troca_cartas rede_boa ''n1'' [''n1'', ''n2''] ''t1'' ''alice'' ''bob''
                    ''C-XX'' ''C-B1'' mundo_troca)))
       = chaves_inventario (cs mundo_troca)"
proof -
  have l: "[''n1'', ''n2''] \<noteq> []" by simp
  have a: "get_inventario (cs mundo_troca) ''alice'' = Some inventario_alice"
    by (simp add: get_inventario_def mundo_troca_def inventario_alice_def)
  have c: "\<not> possui_carta inventario_alice ''C-XX''"
    by (simp add: possui_carta_def inventario_alice_def carta_exemplo_def)
  from troca_sem_carta_aborta [OF l a c, of rede_boa "''n1''" "''t1''" "''bob''" "''C-B1''"] l a c
  show ?thesis by blast
qed

section \<open>C10: the pack granted on joining\<close>

lemma nao_concede_refl [simp]: "nao_concede r r"
  by (simp add: nao_concede_def)









lemma nao_concede_direita:
  "chaves_inventario r'' = chaves_inventario r' \<Longrightarrow> nao_concede r r'' = nao_concede r r'"
  by (simp add: nao_concede_def chaves_coerentes_def pacotes_de_def get_inventario_def)

lemma nao_concede_remover [simp]:
  "nao_concede r (remover_transacao t r') = nao_concede r r'"
  by (rule nao_concede_direita) simp

lemma nao_concede_incrementar [simp]:
  "nao_concede r (snd (sem_disputa (incrementar_estoque_atomico q) r')) = nao_concede r r'"
  by (rule nao_concede_direita) simp






























end
